theory Spec2Isabelle
  imports Complex_Main "HOL-Library.Product_Lexorder"
begin

section \<open>Common conventions\<close>

text \<open>
  The Python sources compute with \<open>float\<close>; the embedding idealises every float as an
  exact rational (\<^typ>\<open>rat\<close>), so \<open>0.4\<close> is \<open>2/5\<close>, \<open>1.2\<close> is \<open>6/5\<close> and so on. Python
  \<open>int\<close> is \<^typ>\<open>int\<close>, counts produced by \<open>len\<close> are \<^typ>\<open>nat\<close>.

  An exception is a value: a fallible computation has the type \<open>py_error + 'a\<close>, with
  \<open>Inl\<close> for the raised exception.
\<close>

datatype py_error = KeyError | ZeroDivisionError

definition getitem :: "'a option \<Rightarrow> py_error + 'a" where
  \<comment> \<open>\<open>d[key]\<close> on a dict whose entry may be missing\<close>
  "getitem v = (case v of None \<Rightarrow> Inl KeyError | Some x \<Rightarrow> Inr x)"

definition py_div :: "rat \<Rightarrow> rat \<Rightarrow> py_error + rat" where
  \<comment> \<open>Python's true division \<open>a / b\<close>\<close>
  "py_div a b = (if b = 0 then Inl ZeroDivisionError else Inr (a / b))"

definition and_then :: "py_error + 'a \<Rightarrow> ('a \<Rightarrow> py_error + 'b) \<Rightarrow> py_error + 'b" where
  \<comment> \<open>sequencing of two statements, the first of which may raise\<close>
  "and_then m f = (case m of Inl e \<Rightarrow> Inl e | Inr x \<Rightarrow> f x)"


section \<open>wallet_analyzer.py: WalletConnectionAnalyzer\<close>

subsection \<open>Holder records\<close>

text \<open>
  A holder is a Python dict built by \<open>TokenAnalyzer.analyze_holder\<close> (analyze.py). Each key
  the analyzer reads is a field; \<open>None\<close> stands for a missing key, so that a read raises
  \<open>KeyError\<close> exactly where the source's subscript does. The nested dicts are flattened:
  \<open>wallet_age_days\<close> is \<open>holder['age_info']['wallet_age_days']\<close>,
  \<open>base_total_tx_count\<close> is \<open>holder['activity_info']['base_chain']['total_tx_count']\<close>,
  \<open>eth_total_tx_count\<close> is \<open>holder['activity_info']['ethereum']['total_tx_count']\<close>,
  \<open>is_active_overall\<close> and \<open>total_recent_tx_count\<close> are the keys of
  \<open>holder['activity_info']\<close>. The value types are the ones the provider stores
  (\<open>age.days\<close> is an int, the transaction counts come from \<open>len\<close> and \<open>int(_, 16)\<close>,
  the balance percentage is a float).
\<close>

record holder =
  address :: "string option"
  address_type :: "string option"
  balance_percentage :: "rat option"
  wallet_age_days :: "int option"
  base_total_tx_count :: "nat option"
  eth_total_tx_count :: "nat option"
  is_active_overall :: "bool option"
  total_recent_tx_count :: "nat option"

subsection \<open>Transaction similarity and connection weight\<close>

definition clean_tx_count :: "nat \<Rightarrow> nat" where
  \<comment> \<open>\<open>_clean_tx_count\<close> on the int the provider stores: \<open>int(tx_count) if tx_count else 0\<close>\<close>
  "clean_tx_count tx_count = (if tx_count \<noteq> 0 then tx_count else 0)"

definition tx_ratio :: "nat \<Rightarrow> nat \<Rightarrow> rat" where
  \<comment> \<open>\<open>min(a, b) / max(a, b) if max(a, b) > 0 else 0\<close>\<close>
  "tx_ratio a b = (if max a b > 0 then of_nat (min a b) / of_nat (max a b) else 0)"

definition tx_similarity_body :: "holder \<Rightarrow> holder \<Rightarrow> py_error + rat" where
  \<comment> \<open>the \<open>try\<close> block of \<open>_calculate_tx_similarity\<close>; \<open>and\<close> short-circuits\<close>
  "tx_similarity_body wallet1 wallet2 =
     and_then (getitem (base_total_tx_count wallet1)) (\<lambda>b1.
     and_then (getitem (base_total_tx_count wallet2)) (\<lambda>b2.
     and_then (getitem (eth_total_tx_count wallet1)) (\<lambda>e1.
     and_then (getitem (eth_total_tx_count wallet2)) (\<lambda>e2.
       let base_ratio = tx_ratio (clean_tx_count b1) (clean_tx_count b2);
           eth_ratio = tx_ratio (clean_tx_count e1) (clean_tx_count e2);
           similarity = base_ratio * (7 / 10) + eth_ratio * (3 / 10)
       in and_then (getitem (is_active_overall wallet1)) (\<lambda>a1.
          and_then (if a1 then getitem (is_active_overall wallet2) else Inr False) (\<lambda>both_active.
            Inr (similarity * (if both_active then 6 / 5 else 4 / 5))))))))"

definition calculate_tx_similarity :: "holder \<Rightarrow> holder \<Rightarrow> rat" where
  \<comment> \<open>\<open>except (KeyError, ValueError, ZeroDivisionError): return 0.0\<close>\<close>
  "calculate_tx_similarity wallet1 wallet2 =
     (case tx_similarity_body wallet1 wallet2 of Inl e \<Rightarrow> 0 | Inr s \<Rightarrow> s)"

definition calculate_connection_weight :: "holder \<Rightarrow> holder \<Rightarrow> rat" where
  \<comment> \<open>\<open>_calculate_connection_weight\<close>: a \<open>KeyError\<close> ends the \<open>try\<close> block and the weight
     accumulated so far is returned\<close>
  "calculate_connection_weight wallet1 wallet2 =
     (case and_then (getitem (wallet_age_days wallet1)) (\<lambda>d1.
           and_then (getitem (wallet_age_days wallet2)) (\<lambda>d2. Inr \<bar>d1 - d2\<bar>)) of
        Inl e \<Rightarrow> 0
      | Inr time_diff \<Rightarrow>
          let weight1 = (if time_diff < 1 then 2 / 5 else if time_diff < 7 then 1 / 5 else 0);
              weight2 = weight1 + calculate_tx_similarity wallet1 wallet2 * (2 / 5)
          in (case and_then (getitem (balance_percentage wallet1)) (\<lambda>p1.
                   and_then (getitem (balance_percentage wallet2)) (\<lambda>p2. Inr \<bar>p1 - p2\<bar>)) of
                Inl e \<Rightarrow> weight2
              | Inr balance_diff \<Rightarrow>
                  weight2 + (if balance_diff < 1 then 1 / 5
                             else if balance_diff < 5 then 1 / 10 else 0)))"

subsection \<open>Clustering\<close>

text \<open>
  \<open>_find_clusters\<close> calls \<open>self._calculate_connection_weight\<close>; the loops are embedded over
  an arbitrary weight function and the analyzer's own instance fixes it. The inner loop
  threads \<open>(current_cluster, used_wallets)\<close>, the outer loop \<open>(clusters, used_wallets)\<close>.
\<close>

fun grow_cluster ::
  "(holder \<Rightarrow> holder \<Rightarrow> rat) \<Rightarrow> holder \<Rightarrow> holder list \<Rightarrow> string list \<times> string set
     \<Rightarrow> py_error + (string list \<times> string set)" where
  "grow_cluster w wallet1 [] (current_cluster, used_wallets) = Inr (current_cluster, used_wallets)"
| "grow_cluster w wallet1 (wallet2 # rest) (current_cluster, used_wallets) =
     and_then (getitem (address wallet2)) (\<lambda>addr2.
       if addr2 \<in> used_wallets then grow_cluster w wallet1 rest (current_cluster, used_wallets)
       else if w wallet1 wallet2 \<ge> 4 / 5
         then grow_cluster w wallet1 rest (current_cluster @ [addr2], insert addr2 used_wallets)
         else grow_cluster w wallet1 rest (current_cluster, used_wallets))"

fun cluster_loop ::
  "(holder \<Rightarrow> holder \<Rightarrow> rat) \<Rightarrow> holder list \<Rightarrow> string list list \<times> string set
     \<Rightarrow> py_error + string list list" where
  "cluster_loop w [] (clusters, used_wallets) = Inr clusters"
| "cluster_loop w (wallet1 # rest) (clusters, used_wallets) =
     and_then (getitem (address wallet1)) (\<lambda>addr1.
       if addr1 \<in> used_wallets then cluster_loop w rest (clusters, used_wallets)
       else and_then (grow_cluster w wallet1 rest ([addr1], insert addr1 used_wallets))
              (\<lambda>(current_cluster, used_wallets').
                 cluster_loop w rest
                   (if length current_cluster > 1 then clusters @ [current_cluster] else clusters,
                    used_wallets')))"

definition sorted_by_len_desc :: "'a list list \<Rightarrow> 'a list list" where
  \<comment> \<open>\<open>sorted(clusters, key=len, reverse=True)\<close>: stable, equal keys keep their order\<close>
  "sorted_by_len_desc clusters = rev (sort_key length (rev clusters))"

definition find_clusters_with ::
  "(holder \<Rightarrow> holder \<Rightarrow> rat) \<Rightarrow> holder list \<Rightarrow> py_error + string list list" where
  "find_clusters_with w holders =
     and_then (cluster_loop w holders ([], {})) (\<lambda>clusters. Inr (sorted_by_len_desc clusters))"

definition find_clusters :: "holder list \<Rightarrow> py_error + string list list" where
  "find_clusters holders = find_clusters_with calculate_connection_weight holders"

subsection \<open>Risk score\<close>

text \<open>
  The risk level strings of \<open>_get_risk_level\<close> and \<open>_get_default_risk_score\<close> begin with an
  emoji; each label is a constructor named after its words.
\<close>

datatype risk_level =
  Extreme_Danger | Elevated_Threat | Moderate_Concern | Minimal_Risk | Negligible_Threat | Unknown

record risk_components =
  cluster_score :: rat
  density_score :: rat
  variance_score :: rat

record risk_score =
  score :: rat
  largest_cluster_size :: nat
  num_clusters :: nat
  network_density :: rat
  risk_level :: risk_level
  components :: risk_components

definition get_risk_level :: "rat \<Rightarrow> risk_level" where
  "get_risk_level s =
     (if s \<ge> 80 then Extreme_Danger
      else if s \<ge> 60 then Elevated_Threat
      else if s \<ge> 40 then Moderate_Concern
      else if s \<ge> 20 then Minimal_Risk
      else Negligible_Threat)"

definition get_default_risk_score :: risk_score where
  "get_default_risk_score =
     \<lparr>score = 0, largest_cluster_size = 0, num_clusters = 0, network_density = 0,
      risk_level = Unknown,
      components = \<lparr>cluster_score = 0, density_score = 0, variance_score = 0\<rparr>\<rparr>"

definition intra_pairs :: "'a list \<Rightarrow> rat" where
  \<comment> \<open>\<open>len(cluster) * (len(cluster) - 1) / 2\<close>\<close>
  "intra_pairs cluster = of_nat (length cluster) * (of_nat (length cluster) - 1) / 2"

definition risk_score_body :: "string list list \<Rightarrow> int \<Rightarrow> py_error + risk_score" where
  \<comment> \<open>the \<open>try\<close> block of \<open>_calculate_risk_score\<close>, every division by a variable through
     \<^const>\<open>py_div\<close>\<close>
  "risk_score_body clusters total_holders =
     (if total_holders = 0 then Inr get_default_risk_score
      else
        let largest_cluster = (if clusters \<noteq> [] then Max (set (map length clusters)) else 0)
        in and_then (py_div (of_nat largest_cluster) (of_int total_holders)) (\<lambda>cluster_ratio.
        let total_connections = sum_list (map intra_pairs clusters);
            max_possible_connections = of_int total_holders * (of_int total_holders - 1) / 2
        in and_then (if max_possible_connections > 0
                     then py_div total_connections max_possible_connections else Inr 0) (\<lambda>density.
        let cluster_sizes = map length clusters
        in and_then (if clusters \<noteq> []
                     then py_div (of_nat (sum_list cluster_sizes)) (of_nat (length clusters))
                     else Inr 0) (\<lambda>avg_cluster_size.
           and_then (if clusters \<noteq> []
                     then py_div (sum_list (map (\<lambda>size. (of_nat size - avg_cluster_size)\<^sup>2) cluster_sizes))
                            (of_nat (length clusters))
                     else Inr 0) (\<lambda>size_variance.
           and_then (py_div size_variance (of_int total_holders)) (\<lambda>variance_ratio.
        let cluster_score = min (cluster_ratio * 40) 40;
            density_score = min (density * 30) 30;
            variance_score = min (variance_ratio * 30) 30;
            risk_score = cluster_score + density_score + variance_score
        in Inr \<lparr>score = min risk_score 100,
                largest_cluster_size = largest_cluster,
                num_clusters = length clusters,
                network_density = density,
                risk_level = get_risk_level risk_score,
                components = \<lparr>cluster_score = cluster_score, density_score = density_score,
                              variance_score = variance_score\<rparr>\<rparr>))))))"

definition calculate_risk_score :: "string list list \<Rightarrow> int \<Rightarrow> risk_score" where
  \<comment> \<open>\<open>except Exception: return self._get_default_risk_score()\<close>\<close>
  "calculate_risk_score clusters total_holders =
     (case risk_score_body clusters total_holders of
        Inl e \<Rightarrow> get_default_risk_score
      | Inr r \<Rightarrow> r)"

subsection \<open>Pattern detectors\<close>

text \<open>
  The entries of the pattern lists are dicts tagged by their \<open>'type'\<close> key
  (\<open>'creation'\<close>, \<open>'transaction'\<close>, \<open>'recent_transaction'\<close>); the arguments are the remaining
  keys in the order the source writes them.
\<close>

datatype pattern =
    Creation (wallets: "string list") (time_difference: rat) (combined_balance: rat)
      (timestamp1: int) (timestamp2: int)
  | Transaction (wallets: "string list") (similarity: rat) (combined_balance: rat)
      (recent_activity: bool)
  | Recent_Transaction (wallets: "string list") (value_eth: rat) (frequency: nat)
      (latest_timestamp: int)

text \<open>
  First loop of \<open>_analyze_creation_patterns\<close>: one BaseScan request per holder. The answer
  of the service is the parameter \<open>api\<close>: \<open>api a = Some t\<close> when the request for address \<open>a\<close>
  yields a first transaction with \<open>timeStamp\<close> \<open>t\<close>, \<open>None\<close> when it fails or has no result.
  A holder without \<open>'address'\<close> raises \<open>KeyError\<close> inside the \<open>try\<close>, and again in the handler
  that formats the log line, so the error leaves the function.
\<close>

fun fetch_timestamps ::
  "(string \<Rightarrow> int option) \<Rightarrow> holder list \<Rightarrow> (string \<rightharpoonup> int) \<Rightarrow> py_error + (string \<rightharpoonup> int)" where
  "fetch_timestamps api [] wallet_timestamps = Inr wallet_timestamps"
| "fetch_timestamps api (h # rest) wallet_timestamps =
     and_then (getitem (address h)) (\<lambda>a.
       fetch_timestamps api rest
         (case api a of Some t \<Rightarrow> wallet_timestamps(a \<mapsto> t) | None \<Rightarrow> wallet_timestamps))"

definition creation_pair :: "holder \<Rightarrow> string \<Rightarrow> int \<Rightarrow> holder \<Rightarrow> string \<Rightarrow> int \<Rightarrow> pattern list" where
  \<comment> \<open>the inner \<open>try\<close> block for one pair: at most one entry; a \<open>KeyError\<close> on
     \<open>'balance_percentage'\<close> is caught and the pair is skipped\<close>
  "creation_pair wallet1 addr1 t1 wallet2 addr2 t2 =
     (let time_diff_minutes = of_int \<bar>t1 - t2\<bar> / 60
      in if time_diff_minutes \<le> 30
         then (case and_then (getitem (balance_percentage wallet1)) (\<lambda>p1.
                    and_then (getitem (balance_percentage wallet2)) (\<lambda>p2. Inr (p1 + p2))) of
                 Inl e \<Rightarrow> []
               | Inr balance_sum \<Rightarrow> [Creation [addr1, addr2] time_diff_minutes balance_sum t1 t2])
         else [])"

fun compare_with ::
  "(string \<rightharpoonup> int) \<Rightarrow> holder \<Rightarrow> string \<Rightarrow> int \<Rightarrow> holder list \<Rightarrow> py_error + pattern list" where
  "compare_with wallet_timestamps wallet1 addr1 t1 [] = Inr []"
| "compare_with wallet_timestamps wallet1 addr1 t1 (wallet2 # rest) =
     and_then (getitem (address wallet2)) (\<lambda>addr2.
       and_then (compare_with wallet_timestamps wallet1 addr1 t1 rest) (\<lambda>later.
         Inr ((case wallet_timestamps addr2 of
                 None \<Rightarrow> []
               | Some t2 \<Rightarrow> creation_pair wallet1 addr1 t1 wallet2 addr2 t2) @ later)))"

fun compare_timestamps :: "(string \<rightharpoonup> int) \<Rightarrow> holder list \<Rightarrow> py_error + pattern list" where
  "compare_timestamps wallet_timestamps [] = Inr []"
| "compare_timestamps wallet_timestamps (wallet1 # rest) =
     and_then (getitem (address wallet1)) (\<lambda>addr1.
       and_then (case wallet_timestamps addr1 of
                   None \<Rightarrow> Inr []
                 | Some t1 \<Rightarrow> compare_with wallet_timestamps wallet1 addr1 t1 rest) (\<lambda>found.
         and_then (compare_timestamps wallet_timestamps rest) (\<lambda>later. Inr (found @ later))))"

definition creation_key :: "pattern \<Rightarrow> rat \<times> rat" where
  \<comment> \<open>\<open>lambda x: (x['time_difference'], -x['combined_balance'])\<close>\<close>
  "creation_key x = (time_difference x, - combined_balance x)"

definition analyze_creation_patterns ::
  "(string \<Rightarrow> int option) \<Rightarrow> holder list \<Rightarrow> py_error + pattern list" where
  "analyze_creation_patterns api holders =
     and_then (fetch_timestamps api holders Map.empty) (\<lambda>wallet_timestamps.
       and_then (compare_timestamps wallet_timestamps holders) (\<lambda>patterns.
         Inr (sort_key creation_key patterns)))"

definition has_chains :: "holder \<Rightarrow> bool" where
  \<comment> \<open>\<open>all(key in wallet['activity_info'] for key in ['base_chain', 'ethereum'])\<close>\<close>
  "has_chains wallet = (base_total_tx_count wallet \<noteq> None \<and> eth_total_tx_count wallet \<noteq> None)"

definition transaction_pair :: "holder \<Rightarrow> holder \<Rightarrow> pattern list" where
  \<comment> \<open>the \<open>try\<close> block of \<open>_analyze_transaction_patterns\<close> for one pair;
     \<open>except KeyError: continue\<close>\<close>
  "transaction_pair wallet1 wallet2 =
     (if \<not> has_chains wallet1 \<or> \<not> has_chains wallet2 then []
      else let similarity = calculate_tx_similarity wallet1 wallet2
           in if similarity > 4 / 5
              then (case
                      and_then (getitem (balance_percentage wallet1)) (\<lambda>p1.
                      and_then (getitem (balance_percentage wallet2)) (\<lambda>p2.
                      and_then (getitem (address wallet1)) (\<lambda>addr1.
                      and_then (getitem (address wallet2)) (\<lambda>addr2.
                      and_then (getitem (total_recent_tx_count wallet1)) (\<lambda>r1.
                      and_then (if r1 \<noteq> 0 then Inr True
                                else and_then (getitem (total_recent_tx_count wallet2))
                                       (\<lambda>r2. Inr (r2 \<noteq> 0))) (\<lambda>recent.
                        Inr [Transaction [addr1, addr2] similarity (p1 + p2) recent]))))))
                    of Inl e \<Rightarrow> [] | Inr found \<Rightarrow> found)
              else [])"

fun transaction_pairs :: "holder list \<Rightarrow> pattern list" where
  "transaction_pairs [] = []"
| "transaction_pairs (wallet1 # rest) =
     concat (map (transaction_pair wallet1) rest) @ transaction_pairs rest"

definition analyze_transaction_patterns :: "holder list \<Rightarrow> pattern list" where
  \<comment> \<open>\<open>sorted(patterns, key=lambda x: (x['similarity'], x['combined_balance']), reverse=True)\<close>\<close>
  "analyze_transaction_patterns holders =
     rev (sort_key (\<lambda>x. (similarity x, combined_balance x)) (rev (transaction_pairs holders)))"

definition analyze_recent_transactions :: "pattern list \<Rightarrow> holder list \<Rightarrow> py_error + pattern list" where
  \<comment> \<open>\<open>_analyze_recent_transactions\<close>: the set comprehension over \<open>h['address']\<close> comes first;
     what the requests then yield, aggregated and sorted, is the parameter \<open>recent\<close>\<close>
  "analyze_recent_transactions recent holders =
     (if list_all (\<lambda>h. address h \<noteq> None) holders then Inr recent else Inl KeyError)"

subsection \<open>The entry point\<close>

fun user_holders_of :: "holder list \<Rightarrow> py_error + holder list" where
  \<comment> \<open>\<open>[holder for holder in holders_data
        if holder['address_type'] not in ['Contract', 'Developer']]\<close>\<close>
  "user_holders_of [] = Inr []"
| "user_holders_of (h # rest) =
     and_then (getitem (address_type h)) (\<lambda>t.
       and_then (user_holders_of rest) (\<lambda>kept.
         Inr (if t \<noteq> ''Contract'' \<and> t \<noteq> ''Developer'' then h # kept else kept)))"

datatype connection_analysis =
    Empty_Dict
  | Connections risk_score "string list list" "pattern list" "pattern list"
    \<comment> \<open>\<open>{'risk_score', 'clusters', 'creation_patterns', 'transaction_patterns'}\<close>\<close>

definition connections_body ::
  "(string \<Rightarrow> int option) \<Rightarrow> pattern list \<Rightarrow> holder list \<Rightarrow> py_error + connection_analysis" where
  \<comment> \<open>the \<open>try\<close> block of \<open>analyze_wallet_connections\<close>\<close>
  "connections_body api recent holders_data =
     and_then (user_holders_of holders_data) (\<lambda>user_holders.
     and_then (analyze_creation_patterns api user_holders) (\<lambda>creation_patterns.
     let transaction_patterns = analyze_transaction_patterns user_holders
     in and_then (analyze_recent_transactions recent user_holders) (\<lambda>recent_txs.
     let transaction_patterns' =
           (if recent_txs \<noteq> [] then transaction_patterns @ recent_txs else transaction_patterns)
     in and_then (find_clusters user_holders) (\<lambda>clusters.
     let risk = calculate_risk_score clusters (int (length user_holders))
     in Inr (Connections risk clusters creation_patterns transaction_patterns')))))"

definition analyze_wallet_connections ::
  "(string \<Rightarrow> int option) \<Rightarrow> pattern list \<Rightarrow> holder list \<Rightarrow> connection_analysis" where
  \<comment> \<open>\<open>except Exception as e: ... return {}\<close>\<close>
  "analyze_wallet_connections api recent holders_data =
     (case connections_body api recent holders_data of
        Inl e \<Rightarrow> Empty_Dict
      | Inr result \<Rightarrow> result)"


section \<open>db_manager.py: the credit ledger\<close>

text \<open>
  The \<open>users\<close> table, read through its \<open>credits\<close> column: a map from \<open>user_id\<close> to the
  balance. The store is taken to answer every request; a request that raises makes
  \<open>get_user\<close> return \<open>None\<close> and \<open>use_credit\<close> and \<open>add_credits\<close> return \<open>False\<close> with the
  table untouched, as a missing row does here.
\<close>

type_synonym ledger = "int \<rightharpoonup> int"

definition get_user :: "ledger \<Rightarrow> int \<Rightarrow> int option" where
  "get_user db uid = db uid"

definition use_credit :: "ledger \<Rightarrow> int \<Rightarrow> int \<Rightarrow> bool \<times> ledger" where
  "use_credit db uid amount =
     (case db uid of
        None \<Rightarrow> (False, db)
      | Some current_credits \<Rightarrow>
          if current_credits \<ge> amount then (True, db(uid \<mapsto> current_credits - amount))
          else (False, db))"

definition add_credits :: "ledger \<Rightarrow> int \<Rightarrow> int \<Rightarrow> bool \<times> ledger" where
  "add_credits db uid credits =
     (if credits \<le> 0 then (False, db)
      else case db uid of
             None \<Rightarrow> (False, db)
           | Some current_credits \<Rightarrow> (True, db(uid \<mapsto> current_credits + credits)))"


section \<open>analyzer_queue.py: AnalyzerQueue\<close>

text \<open>
  The coordinator's state is the object's mutable fields together with the ledger it
  calls. \<open>send_message\<close> only talks to the chat service and swallows its own exceptions;
  it reads and writes none of these fields and is left out. The \<open>timestamp\<close> of a task
  and of a cache entry is wall-clock time and is left out as well. A report
  (\<open>complete_analysis\<close>) is an opaque value.

  A record of \<open>active_tokens\<close> created by \<open>process_queue\<close> has no \<open>'chat_ids'\<close> key; every
  read goes through \<open>.get('chat_ids', {})\<close>, so the missing key is the empty map.
\<close>

type_synonym report = string

record task =
  token_address :: string
  chat_id :: int
  user_id :: int
  analysis_type :: string

record in_flight =
  users :: "int set"
  results_sent :: "int set"
  credits_deducted :: "int set"
  current_type :: string  \<comment> \<open>the key \<open>'analysis_type'\<close>\<close>
  chat_ids :: "int \<rightharpoonup> int"

record analyzer_queue =
  queue :: "task list"
  current_task :: "task option"
  analysis_results :: "int \<rightharpoonup> report"
  active_tokens :: "string \<rightharpoonup> in_flight"
  analysis_cache :: "string \<rightharpoonup> report"
  db :: ledger

definition credits_required :: "string \<Rightarrow> int" where
  \<comment> \<open>\<open>5 if analysis_type == "deep" else 1\<close>\<close>
  "credits_required atype = (if atype = ''deep'' then 5 else 1)"

definition cache_key :: "string \<Rightarrow> string \<Rightarrow> string" where
  \<comment> \<open>\<open>f"{token_address}_{analysis_type}"\<close>\<close>
  "cache_key token atype = token @ ''_'' @ atype"

definition check_and_deduct :: "analyzer_queue \<Rightarrow> int \<Rightarrow> string \<Rightarrow> bool \<times> analyzer_queue" where
  \<comment> \<open>the block \<open>add_task\<close> contains twice (lines 133--150 and 174--191): the balance check,
     then \<open>use_credit\<close>; \<open>False\<close> stands for the block's \<open>return False\<close>\<close>
  "check_and_deduct st uid atype =
     (case get_user (db st) uid of
        None \<Rightarrow> (False, st)
      | Some credits \<Rightarrow>
          if credits < credits_required atype then (False, st)
          else (case use_credit (db st) uid (credits_required atype) of
                  (ok, db') \<Rightarrow> (ok, st\<lparr>db := db'\<rparr>)))"

definition admit_new :: "analyzer_queue \<Rightarrow> string \<Rightarrow> int \<Rightarrow> int \<Rightarrow> string \<Rightarrow> bool \<times> analyzer_queue" where
  \<comment> \<open>\<open>add_task\<close> from line 152 on: check and deduct, append the task, store a fresh record\<close>
  "admit_new st token chat uid atype =
     (case check_and_deduct st uid atype of
        (ok, st') \<Rightarrow>
          if \<not> ok then (False, st')
          else (True,
                st'\<lparr>queue := queue st' @
                        [\<lparr>token_address = token, chat_id = chat, user_id = uid,
                          analysis_type = atype\<rparr>],
                    active_tokens := (active_tokens st')(token \<mapsto>
                        \<lparr>users = {uid}, results_sent = {}, credits_deducted = {uid},
                         current_type = atype, chat_ids = [uid \<mapsto> chat]\<rparr>)\<rparr>))"

definition add_task :: "analyzer_queue \<Rightarrow> string \<Rightarrow> int \<Rightarrow> int \<Rightarrow> string \<Rightarrow> bool \<times> analyzer_queue" where
  "add_task st token chat uid atype =
     (case active_tokens st token of
        Some current_analysis \<Rightarrow>
          if current_type current_analysis = atype
          then (True,
                if uid \<notin> results_sent current_analysis
                then st\<lparr>active_tokens := (active_tokens st)(token \<mapsto>
                        current_analysis\<lparr>users := insert uid (users current_analysis),
                                          chat_ids := (chat_ids current_analysis)(uid \<mapsto> chat)\<rparr>)\<rparr>
                else st)
          else (case check_and_deduct st uid atype of
                  (ok, st') \<Rightarrow>
                    if \<not> ok then (False, st') else admit_new st' token chat uid atype)
      | None \<Rightarrow> admit_new st token chat uid atype)"

text \<open>
  One iteration of the \<open>while self.queue\<close> loop of \<open>process_queue\<close>, in two steps so that
  an \<open>add_task\<close> can run while the analysis is awaited. \<open>start_task\<close> is lines 315--328.
  The analysis itself (lines 332--370: the provider calls and the assembly of the
  report) is the parameter \<open>outcome\<close>: it either raises or yields the report, and it
  touches none of the coordinator's fields. \<open>finish_task\<close> is the rest of the iteration:
  caching and fan-out, or the handler of \<open>analysis_error\<close>, then the \<open>finally\<close> block.
\<close>

datatype outcome = Failed string | Completed report

definition start_task :: "analyzer_queue \<Rightarrow> (task \<times> analyzer_queue) option" where
  "start_task st =
     (case queue st of
        [] \<Rightarrow> None
      | t # rest \<Rightarrow>
          Some (t,
            st\<lparr>queue := rest, current_task := Some t,
               active_tokens :=
                 (case active_tokens st (token_address t) of
                    Some r \<Rightarrow> active_tokens st
                  | None \<Rightarrow> (active_tokens st)(token_address t \<mapsto>
                      \<lparr>users = {user_id t}, results_sent = {}, credits_deducted = {},
                       current_type = analysis_type t, chat_ids = Map.empty\<rparr>))\<rparr>))"

definition deliver :: "task \<Rightarrow> report \<Rightarrow> analyzer_queue \<Rightarrow> analyzer_queue" where
  \<comment> \<open>lines 372--401: cache the report, store it for every waiting user that has not been
     served and mark the user as served\<close>
  "deliver t complete_analysis st =
     (case active_tokens st (token_address t) of
        None \<Rightarrow> st\<lparr>analysis_cache := (analysis_cache st)
                       (cache_key (token_address t) (analysis_type t) \<mapsto> complete_analysis)\<rparr>
      | Some r \<Rightarrow>
          st\<lparr>analysis_cache := (analysis_cache st)
                 (cache_key (token_address t) (analysis_type t) \<mapsto> complete_analysis),
             analysis_results := (\<lambda>u. if u \<in> users r \<and> u \<notin> results_sent r
                                        then Some complete_analysis else analysis_results st u),
             active_tokens := (active_tokens st)(token_address t \<mapsto>
                 r\<lparr>results_sent := results_sent r \<union> users r\<rparr>)\<rparr>)"

definition refund :: "task \<Rightarrow> analyzer_queue \<Rightarrow> analyzer_queue" where
  \<comment> \<open>lines 403--427: the handler of \<open>analysis_error\<close>; the result of \<open>add_credits\<close> is not
     looked at\<close>
  "refund t st =
     (case active_tokens st (token_address t) of
        None \<Rightarrow> st
      | Some r \<Rightarrow>
          if user_id t \<in> credits_deducted r
          then st\<lparr>db := snd (add_credits (db st) (user_id t) (credits_required (analysis_type t))),
                  active_tokens := (active_tokens st)(token_address t \<mapsto>
                      r\<lparr>credits_deducted := credits_deducted r - {user_id t}\<rparr>)\<rparr>
          else st)"

definition cleanup :: "task \<Rightarrow> analyzer_queue \<Rightarrow> analyzer_queue" where
  \<comment> \<open>the \<open>finally\<close> block, lines 445--449\<close>
  "cleanup t st =
     st\<lparr>active_tokens := (active_tokens st)(token_address t := None), current_task := None\<rparr>"

definition finish_task :: "task \<Rightarrow> outcome \<Rightarrow> analyzer_queue \<Rightarrow> analyzer_queue" where
  "finish_task t result st =
     (case result of
        Completed complete_analysis \<Rightarrow> cleanup t (deliver t complete_analysis st)
      | Failed analysis_error \<Rightarrow> cleanup t (refund t st))"

definition process_next :: "outcome \<Rightarrow> analyzer_queue \<Rightarrow> analyzer_queue" where
  \<comment> \<open>one iteration with no admission in between\<close>
  "process_next result st =
     (case start_task st of None \<Rightarrow> st | Some (t, st') \<Rightarrow> finish_task t result st')"

definition initial_queue :: "ledger \<Rightarrow> analyzer_queue" where
  \<comment> \<open>\<open>__init__\<close>\<close>
  "initial_queue users_table =
     \<lparr>queue = [], current_task = None, analysis_results = Map.empty,
      active_tokens = Map.empty, analysis_cache = Map.empty, db = users_table\<rparr>"


section \<open>Notions of the specification and example inputs\<close>

definition balance :: "ledger \<Rightarrow> int \<Rightarrow> int" where
  \<comment> \<open>a requester's balance as the rejection message reports it:
     \<open>user_data['credits'] if user_data else 0\<close>\<close>
  "balance users_table uid = (case get_user users_table uid of None \<Rightarrow> 0 | Some credits \<Rightarrow> credits)"

definition example_holder :: "string \<Rightarrow> rat \<Rightarrow> int \<Rightarrow> nat \<Rightarrow> holder" where
  \<comment> \<open>an active user wallet with the same transaction count on both chains\<close>
  "example_holder a percent age txs =
     \<lparr>address = Some a, address_type = Some ''User'', balance_percentage = Some percent,
      wallet_age_days = Some age, base_total_tx_count = Some txs,
      eth_total_tx_count = Some txs, is_active_overall = Some True,
      total_recent_tx_count = Some 3\<rparr>"

definition table_weight :: "holder \<Rightarrow> holder \<Rightarrow> rat" where
  \<comment> \<open>the weights of the clustering example: \<open>w(A,B) = 0.9\<close>, \<open>w(B,C) = 0.9\<close>, \<open>w(A,C) = 0.3\<close>\<close>
  "table_weight x y =
     (if address x = Some ''0xA'' \<and> address y = Some ''0xB'' then 9 / 10
      else if address x = Some ''0xB'' \<and> address y = Some ''0xC'' then 9 / 10
      else if address x = Some ''0xA'' \<and> address y = Some ''0xC'' then 3 / 10
      else 0)"

definition ten_wallets :: "string list" where
  "ten_wallets = [''0x0'', ''0x1'', ''0x2'', ''0x3'', ''0x4'', ''0x5'', ''0x6'', ''0x7'', ''0x8'', ''0x9'']"

definition three_users :: ledger where
  "three_users = [1 \<mapsto> 1, 2 \<mapsto> 10, 3 \<mapsto> 0]"

definition admitted_quick :: analyzer_queue where
  \<comment> \<open>user 1 has submitted a quick analysis of token \<open>0xT\<close>\<close>
  "admitted_quick = snd (add_task (initial_queue three_users) ''0xT'' 100 1 ''quick'')"

definition admitted_deep :: analyzer_queue where
  \<comment> \<open>then user 2 has submitted a deep analysis of the same token\<close>
  "admitted_deep = snd (add_task admitted_quick ''0xT'' 200 2 ''deep'')"

definition quick_task :: task where
  "quick_task = \<lparr>token_address = ''0xT'', chat_id = 100, user_id = 1, analysis_type = ''quick''\<rparr>"

definition quick_started :: analyzer_queue where
  \<comment> \<open>the worker has taken user 1's task and awaits the analysis\<close>
  "quick_started = admitted_quick\<lparr>queue := [], current_task := Some quick_task\<rparr>"

definition deep_mid_flight :: analyzer_queue where
  \<comment> \<open>user 2 submits the deep analysis while the quick one is being computed\<close>
  "deep_mid_flight = snd (add_task quick_started ''0xT'' 200 2 ''deep'')"


text \<open>
  Auxiliary notions for the pattern detector and the entry point: the pairs of a list in
  the order the two nested loops visit them, the entries one pair contributes, and the
  entry the specification asks for at positions \<open>i < j\<close> (both first-activity timestamps
  resolved and at most 30 minutes apart).
\<close>

fun pairs_in_order :: "'a list \<Rightarrow> ('a \<times> 'a) list" where
  "pairs_in_order [] = []"
| "pairs_in_order (x # xs) = map (Pair x) xs @ pairs_in_order xs"

definition pair_entries :: "(string \<rightharpoonup> int) \<Rightarrow> holder \<Rightarrow> holder \<Rightarrow> pattern list" where
  "pair_entries ts w1 w2 =
     (case address w1 of None \<Rightarrow> [] | Some a1 \<Rightarrow>
       (case ts a1 of None \<Rightarrow> [] | Some t1 \<Rightarrow>
         (case address w2 of None \<Rightarrow> [] | Some a2 \<Rightarrow>
           (case ts a2 of None \<Rightarrow> [] | Some t2 \<Rightarrow> creation_pair w1 a1 t1 w2 a2 t2))))"

definition close_pair_at ::
  "(string \<Rightarrow> int option) \<Rightarrow> holder list \<Rightarrow> nat \<Rightarrow> nat \<Rightarrow> pattern \<Rightarrow> bool" where
  "close_pair_at api holders i j p \<longleftrightarrow>
     i < j \<and> j < length holders \<and>
     (\<exists>a1 a2 t1 t2 p1 p2.
        address (holders ! i) = Some a1 \<and> address (holders ! j) = Some a2 \<and>
        api a1 = Some t1 \<and> api a2 = Some t2 \<and>
        of_int \<bar>t1 - t2\<bar> / 60 \<le> (30 :: rat) \<and>
        balance_percentage (holders ! i) = Some p1 \<and>
        balance_percentage (holders ! j) = Some p2 \<and>
        p = Creation [a1, a2] (of_int \<bar>t1 - t2\<bar> / 60) (p1 + p2) t1 t2)"

text \<open>
  A holder the entry point cannot process: \<open>'address_type'\<close> is missing, or the holder is
  kept by the filter and \<open>'address'\<close> is missing.
\<close>

definition is_user :: "holder \<Rightarrow> bool" where
  "is_user h \<longleftrightarrow> address_type h \<noteq> Some ''Contract'' \<and> address_type h \<noteq> Some ''Developer''"

definition lacks_key :: "holder \<Rightarrow> bool" where
  "lacks_key h \<longleftrightarrow> address_type h = None \<or> (is_user h \<and> address h = None)"

definition creation_api :: "string \<Rightarrow> int option" where
  \<comment> \<open>first-activity timestamps (seconds) of four wallets; \<open>0xE\<close> has none\<close>
  "creation_api a =
     (if a = ''0xA'' then Some 1000 else if a = ''0xB'' then Some 1600
      else if a = ''0xC'' then Some 2200 else if a = ''0xD'' then Some 9000 else None)"

definition creation_batch :: "holder list" where
  "creation_batch =
     [example_holder ''0xA'' 5 100 25, example_holder ''0xB'' 3 100 40,
      example_holder ''0xC'' 7 100 64, example_holder ''0xD'' 1 100 9,
      example_holder ''0xE'' 2 100 9]"

definition far_batch :: "holder list" where
  "far_batch = [example_holder ''0xA'' 5 100 25, example_holder ''0xD'' 1 100 9]"

definition mixed_batch :: "holder list" where
  "mixed_batch =
     [example_holder ''0xA'' 5 100 25,
      (example_holder ''0xF'' 40 100 3)\<lparr>address_type := Some ''Contract''\<rparr>,
      example_holder ''0xB'' 5 100 40,
      example_holder ''0xD'' 1 100 9]"

definition untyped_batch :: "holder list" where
  "untyped_batch =
     [example_holder ''0xA'' 5 100 25,
      (example_holder ''0xB'' 5 100 40)\<lparr>address_type := None\<rparr>]"


section \<open>Properties of the wallet connection analyzer\<close>

subsection \<open>Risk score\<close>

lemma risk_score_body_returns: "\<exists>r. risk_score_body clusters total_holders = Inr r"
  by (auto simp: risk_score_body_def py_div_def and_then_def Let_def)

text \<open>
  C6. For a single cluster of size 10 out of \<open>n = 10\<close> holders the risk scorer yields
  cluster score 40, density score 30, variance score 0, total score 70 and the level
  whose inclusive lower bound is 60 (``Elevated Threat'').
\<close>

theorem risk_score_fully_clustered:
  assumes "length c = 10"
  shows "cluster_score (components (calculate_risk_score [c] 10)) = 40
       \<and> density_score (components (calculate_risk_score [c] 10)) = 30
       \<and> variance_score (components (calculate_risk_score [c] 10)) = 0
       \<and> score (calculate_risk_score [c] 10) = 70
       \<and> risk_level (calculate_risk_score [c] 10) = Elevated_Threat
       \<and> get_risk_level 60 = Elevated_Threat"
  using assms
  by (simp add: calculate_risk_score_def risk_score_body_def py_div_def and_then_def Let_def
        intra_pairs_def get_risk_level_def)

theorem risk_score_fully_clustered_witness:
  "length ten_wallets = 10
   \<and> cluster_score (components (calculate_risk_score [ten_wallets] 10)) = 40
   \<and> density_score (components (calculate_risk_score [ten_wallets] 10)) = 30
   \<and> variance_score (components (calculate_risk_score [ten_wallets] 10)) = 0
   \<and> score (calculate_risk_score [ten_wallets] 10) = 70
   \<and> risk_level (calculate_risk_score [ten_wallets] 10) = Elevated_Threat"
proof -
  have len: "length ten_wallets = 10" by (simp add: ten_wallets_def)
  from risk_score_fully_clustered [OF len] len show ?thesis by simp
qed

text \<open>
  C8. For a total holder count of 0 the risk scorer returns the fixed default structure
  (score 0, zero components, risk level ``Unknown''), and for every input its body
  returns a value: no division raises \<open>ZeroDivisionError\<close>.
\<close>

theorem risk_score_no_holders_default:
  "calculate_risk_score clusters 0 = get_default_risk_score
   \<and> score get_default_risk_score = 0
   \<and> components get_default_risk_score
       = \<lparr>cluster_score = 0, density_score = 0, variance_score = 0\<rparr>
   \<and> risk_level get_default_risk_score = Unknown
   \<and> (\<exists>r. risk_score_body any_clusters n = Inr r)
   \<and> risk_score_body any_clusters n \<noteq> Inl ZeroDivisionError"
proof -
  obtain r where "risk_score_body any_clusters n = Inr r"
    using risk_score_body_returns by blast
  then show ?thesis
    by (simp add: calculate_risk_score_def risk_score_body_def get_default_risk_score_def)
qed

subsection \<open>Clustering\<close>

text \<open>
  C4. For the holder list \<open>[A, B, C]\<close> with \<open>w(A,B) = 0.9\<close>, \<open>w(B,C) = 0.9\<close> and
  \<open>w(A,C) = 0.3\<close> the clustering returns exactly \<open>[[A, B]]\<close>: \<open>C\<close> is compared with the
  seed \<open>A\<close> only and stays unclustered.
\<close>

theorem find_clusters_seed_only:
  assumes "address hA = Some a" and "address hB = Some b" and "address hC = Some c"
    and "a \<noteq> b" and "a \<noteq> c" and "b \<noteq> c"
    and "w hA hB = 9 / 10" and "w hB hC = 9 / 10" and "w hA hC = 3 / 10"
  shows "find_clusters_with w [hA, hB, hC] = Inr [[a, b]]"
  using assms
  by (simp add: find_clusters_with_def sorted_by_len_desc_def getitem_def and_then_def)

theorem find_clusters_seed_only_witness:
  "table_weight (example_holder ''0xA'' 1 100 5) (example_holder ''0xB'' 1 100 5) = 9 / 10
   \<and> table_weight (example_holder ''0xB'' 1 100 5) (example_holder ''0xC'' 1 100 5) = 9 / 10
   \<and> table_weight (example_holder ''0xA'' 1 100 5) (example_holder ''0xC'' 1 100 5) = 3 / 10
   \<and> find_clusters_with table_weight
        [example_holder ''0xA'' 1 100 5, example_holder ''0xB'' 1 100 5,
         example_holder ''0xC'' 1 100 5]
       = Inr [[''0xA'', ''0xB'']]"
proof -
  let ?A = "example_holder ''0xA'' 1 100 5"
  let ?B = "example_holder ''0xB'' 1 100 5"
  let ?C = "example_holder ''0xC'' 1 100 5"
  have w: "table_weight ?A ?B = 9 / 10" "table_weight ?B ?C = 9 / 10"
    "table_weight ?A ?C = 3 / 10"
    by (simp_all add: table_weight_def example_holder_def)
  have addr: "address ?A = Some ''0xA''" "address ?B = Some ''0xB''" "address ?C = Some ''0xC''"
    by (simp_all add: example_holder_def)
  have "find_clusters_with table_weight [?A, ?B, ?C] = Inr [[''0xA'', ''0xB'']]"
    by (rule find_clusters_seed_only [OF addr _ _ _ w]) simp_all
  with w show ?thesis by simp
qed

text \<open>
  The same shape with the analyzer's own weight function: three wallets of equal age and
  balance with 25, 40 and 64 transactions per chain have weights \<open>0.9\<close>, \<open>0.9\<close> and
  \<open>63/80 < 0.8\<close>; the third wallet is left out although it is connected to the second.
\<close>

lemma find_clusters_not_transitive:
  "calculate_connection_weight (example_holder ''0xA'' 1 100 25) (example_holder ''0xB'' 1 100 40) = 9 / 10
   \<and> calculate_connection_weight (example_holder ''0xB'' 1 100 40) (example_holder ''0xC'' 1 100 64) = 9 / 10
   \<and> calculate_connection_weight (example_holder ''0xA'' 1 100 25) (example_holder ''0xC'' 1 100 64) = 63 / 80
   \<and> find_clusters
        [example_holder ''0xA'' 1 100 25, example_holder ''0xB'' 1 100 40,
         example_holder ''0xC'' 1 100 64]
       = Inr [[''0xA'', ''0xB'']]"
  by (simp add: find_clusters_def find_clusters_with_def sorted_by_len_desc_def
        calculate_connection_weight_def calculate_tx_similarity_def tx_similarity_body_def
        example_holder_def getitem_def and_then_def tx_ratio_def clean_tx_count_def Let_def)

subsection \<open>Connection weight\<close>

lemma tx_ratio_bounds: "0 \<le> tx_ratio a b \<and> tx_ratio a b \<le> 1"
  by (simp add: tx_ratio_def min_def max_def divide_le_eq)

lemma scaled_mix_bounds:
  fixes x y k :: rat
  assumes "0 \<le> x" "x \<le> 1" "0 \<le> y" "y \<le> 1" "k = 6 / 5 \<or> k = 4 / 5"
  shows "0 \<le> (x * (7 / 10) + y * (3 / 10)) * k \<and> (x * (7 / 10) + y * (3 / 10)) * k \<le> 6 / 5"
proof -
  have "0 \<le> (x * (7 / 10) + y * (3 / 10)) * (6 / 5)
        \<and> (x * (7 / 10) + y * (3 / 10)) * (6 / 5) \<le> 6 / 5"
    using assms(1-4) by simp
  moreover have "0 \<le> (x * (7 / 10) + y * (3 / 10)) * (4 / 5)
        \<and> (x * (7 / 10) + y * (3 / 10)) * (4 / 5) \<le> 6 / 5"
    using assms(1-4) by simp
  ultimately show ?thesis using assms(5) by blast
qed

lemma tx_similarity_body_bounds:
  assumes "tx_similarity_body w1 w2 = Inr s"
  shows "0 \<le> s \<and> s \<le> 6 / 5"
proof -
  from assms obtain b1 b2 e1 e2 a1 where
    f: "base_total_tx_count w1 = Some b1" "base_total_tx_count w2 = Some b2"
       "eth_total_tx_count w1 = Some e1" "eth_total_tx_count w2 = Some e2"
       "is_active_overall w1 = Some a1"
    by (auto simp: tx_similarity_body_def and_then_def getitem_def split: option.splits)
  let ?mix = "tx_ratio (clean_tx_count b1) (clean_tx_count b2) * (7 / 10)
                + tx_ratio (clean_tx_count e1) (clean_tx_count e2) * (3 / 10)"
  have bounded: "0 \<le> ?mix * k \<and> ?mix * k \<le> 6 / 5" if "k = 6 / 5 \<or> k = 4 / 5" for k
    using that by (intro scaled_mix_bounds) (simp_all add: tx_ratio_bounds)
  show ?thesis
  proof (cases a1)
    case False
    with assms f have "s = ?mix * (4 / 5)"
      by (simp add: tx_similarity_body_def and_then_def getitem_def Let_def)
    then show ?thesis using bounded [of "4 / 5"] by simp
  next
    case True
    with assms f obtain a2 where a2: "is_active_overall w2 = Some a2"
      by (auto simp: tx_similarity_body_def and_then_def getitem_def split: option.splits)
    with True assms f have "s = ?mix * (if a2 then 6 / 5 else 4 / 5)"
      by (simp add: tx_similarity_body_def and_then_def getitem_def Let_def)
    then show ?thesis using bounded [of "if a2 then 6 / 5 else 4 / 5"] by simp
  qed
qed

lemma calculate_tx_similarity_bounds:
  "0 \<le> calculate_tx_similarity w1 w2 \<and> calculate_tx_similarity w1 w2 \<le> 6 / 5"
  using tx_similarity_body_bounds [of w1 w2]
  by (cases "tx_similarity_body w1 w2") (simp_all add: calculate_tx_similarity_def)

text \<open>
  C5 as stated (every connection weight lies in \<open>[0, 1]\<close>) fails: two active wallets of
  equal age and balance with equal transaction counts have similarity \<open>1.2\<close> and weight
  \<open>0.4 + 1.2 * 0.4 + 0.2 = 1.08\<close>.
\<close>

theorem connection_weight_exceeds_one:
  "\<not> (0 \<le> calculate_connection_weight (example_holder ''0xA'' 1 100 12)
                (example_holder ''0xB'' 1 100 12)
      \<and> calculate_connection_weight (example_holder ''0xA'' 1 100 12)
                (example_holder ''0xB'' 1 100 12) \<le> 1)"
  by (simp add: calculate_connection_weight_def calculate_tx_similarity_def
        tx_similarity_body_def example_holder_def getitem_def and_then_def tx_ratio_def
        clean_tx_count_def Let_def)

text \<open>
  C5, amended. For every pair of holder records the connection weight lies in the
  interval \<open>[0, 1.08]\<close>.
\<close>

theorem connection_weight_bounds:
  "0 \<le> calculate_connection_weight a b \<and> calculate_connection_weight a b \<le> 27 / 25"
  using calculate_tx_similarity_bounds [of a b]
  by (auto simp: calculate_connection_weight_def and_then_def getitem_def Let_def
           split: option.splits)

subsection \<open>Creation-time patterns\<close>

lemma set_pairs_in_order:
  "(x, y) \<in> set (pairs_in_order xs) \<longleftrightarrow> (\<exists>i j. i < j \<and> j < length xs \<and> x = xs ! i \<and> y = xs ! j)"
proof (induction xs)
  case Nil
  then show ?case by simp
next
  case (Cons z zs)
  show ?case
  proof
    assume "(x, y) \<in> set (pairs_in_order (z # zs))"
    then consider "x = z" "y \<in> set zs" | "(x, y) \<in> set (pairs_in_order zs)"
      by auto
    then show "\<exists>i j. i < j \<and> j < length (z # zs) \<and> x = (z # zs) ! i \<and> y = (z # zs) ! j"
    proof cases
      case 1
      then obtain k where "k < length zs" "y = zs ! k"
        by (auto simp: in_set_conv_nth)
      with 1 have "0 < Suc k \<and> Suc k < length (z # zs) \<and> x = (z # zs) ! 0 \<and> y = (z # zs) ! Suc k"
        by simp
      then show ?thesis by blast
    next
      case 2
      with Cons.IH obtain i j where "i < j" "j < length zs" "x = zs ! i" "y = zs ! j"
        by blast
      then have "Suc i < Suc j \<and> Suc j < length (z # zs) \<and> x = (z # zs) ! Suc i \<and> y = (z # zs) ! Suc j"
        by simp
      then show ?thesis by blast
    qed
  next
    assume "\<exists>i j. i < j \<and> j < length (z # zs) \<and> x = (z # zs) ! i \<and> y = (z # zs) ! j"
    then obtain i j where ij: "i < j" "j < length (z # zs)" "x = (z # zs) ! i" "y = (z # zs) ! j"
      by blast
    from ij(1) obtain j' where j': "j = Suc j'" by (cases j) auto
    show "(x, y) \<in> set (pairs_in_order (z # zs))"
    proof (cases i)
      case 0
      with ij j' show ?thesis by auto
    next
      case (Suc i')
      with ij j' have "i' < j' \<and> j' < length zs \<and> x = zs ! i' \<and> y = zs ! j'" by simp
      with Cons.IH have "(x, y) \<in> set (pairs_in_order zs)" by blast
      then show ?thesis by simp
    qed
  qed
qed

lemma fetch_timestamps_result:
  assumes "list_all (\<lambda>h. address h \<noteq> None) hs"
  shows "\<exists>ts. fetch_timestamps api hs m = Inr ts \<and>
           (\<forall>a. ts a = (if (\<exists>h \<in> set hs. address h = Some a) \<and> api a \<noteq> None then api a else m a))"
  using assms
proof (induction hs arbitrary: m)
  case Nil
  then show ?case by simp
next
  case (Cons h hs)
  then obtain a where a: "address h = Some a" by auto
  let ?m = "case api a of Some t \<Rightarrow> m(a \<mapsto> t) | None \<Rightarrow> m"
  from Cons.prems have rest: "list_all (\<lambda>h. address h \<noteq> None) hs" by simp
  from Cons.IH [OF rest, of ?m] obtain ts where ts: "fetch_timestamps api hs ?m = Inr ts"
    "\<forall>b. ts b = (if (\<exists>h \<in> set hs. address h = Some b) \<and> api b \<noteq> None then api b else ?m b)"
    by blast
  have "fetch_timestamps api (h # hs) m = Inr ts"
    using a ts(1) by (simp add: and_then_def getitem_def)
  moreover have "ts b = (if (\<exists>h' \<in> set (h # hs). address h' = Some b) \<and> api b \<noteq> None then api b else m b)" for b
    using ts(2) a by (auto split: option.splits)
  ultimately show ?case by blast
qed

lemma compare_with_entries:
  assumes "list_all (\<lambda>h. address h \<noteq> None) rest"
  shows "compare_with ts w1 a1 t1 rest =
           Inr (concat (map (\<lambda>w2. case address w2 of None \<Rightarrow> [] | Some a2 \<Rightarrow>
                               (case ts a2 of None \<Rightarrow> []
                                | Some t2 \<Rightarrow> creation_pair w1 a1 t1 w2 a2 t2)) rest))"
  using assms
  by (induction rest) (auto simp: and_then_def getitem_def)

lemma compare_timestamps_entries:
  assumes "list_all (\<lambda>h. address h \<noteq> None) hs"
  shows "compare_timestamps ts hs =
           Inr (concat (map (\<lambda>(x, y). pair_entries ts x y) (pairs_in_order hs)))"
  using assms
proof (induction hs)
  case Nil
  then show ?case by simp
next
  case (Cons h hs)
  then obtain a where a: "address h = Some a" by auto
  from Cons have rest: "list_all (\<lambda>h. address h \<noteq> None) hs" by simp
  have found: "(case ts a of None \<Rightarrow> Inr [] | Some t1 \<Rightarrow> compare_with ts h a t1 hs)
        = Inr (concat (map (\<lambda>y. pair_entries ts h y) hs))"
    using a compare_with_entries [OF rest]
    by (cases "ts a") (simp_all add: pair_entries_def)
  show ?case
    using a found Cons.IH [OF rest]
    by (simp add: and_then_def getitem_def comp_def)
qed

lemma creation_pair_member:
  "p \<in> set (creation_pair w1 a1 t1 w2 a2 t2) \<longleftrightarrow>
     of_int \<bar>t1 - t2\<bar> / 60 \<le> (30 :: rat) \<and>
     (\<exists>p1 p2. balance_percentage w1 = Some p1 \<and> balance_percentage w2 = Some p2 \<and>
        p = Creation [a1, a2] (of_int \<bar>t1 - t2\<bar> / 60) (p1 + p2) t1 t2)"
proof (cases "of_int \<bar>t1 - t2\<bar> / 60 \<le> (30 :: rat)")
  case False
  then show ?thesis by (simp add: creation_pair_def Let_def)
next
  case True
  then show ?thesis
    by (cases "balance_percentage w1"; cases "balance_percentage w2")
       (auto simp: creation_pair_def and_then_def getitem_def Let_def)
qed

lemma pair_entries_member:
  assumes x: "x \<in> set hs" and y: "y \<in> set hs"
    and ts: "\<forall>a. ts a = (if (\<exists>h \<in> set hs. address h = Some a) \<and> api a \<noteq> None
                         then api a else None)"
  shows "p \<in> set (pair_entries ts x y) \<longleftrightarrow>
           (\<exists>a1 a2 t1 t2 p1 p2.
              address x = Some a1 \<and> address y = Some a2 \<and>
              api a1 = Some t1 \<and> api a2 = Some t2 \<and>
              of_int \<bar>t1 - t2\<bar> / 60 \<le> (30 :: rat) \<and>
              balance_percentage x = Some p1 \<and> balance_percentage y = Some p2 \<and>
              p = Creation [a1, a2] (of_int \<bar>t1 - t2\<bar> / 60) (p1 + p2) t1 t2)"
proof -
  have known: "ts a = api a" if "h \<in> set hs" "address h = Some a" for h a
    using ts that by (cases "api a") auto
  show ?thesis
  proof (cases "address x")
    case None
    then show ?thesis by (simp add: pair_entries_def)
  next
    case ax: (Some a1)
    show ?thesis
    proof (cases "address y")
      case None
      with ax show ?thesis by (simp add: pair_entries_def split: option.splits)
    next
      case ay: (Some a2)
      from known [OF x ax] known [OF y ay] ax ay show ?thesis
        by (cases "api a1"; cases "api a2")
           (auto simp: pair_entries_def creation_pair_member)
    qed
  qed
qed

text \<open>
  C9. For every holder batch (each holder carrying its \<open>'address'\<close>) the creation-time
  pattern detector returns a list that holds exactly the entries of the pairs \<open>i < j\<close>
  whose first-activity timestamps are both resolved and at most 30 minutes apart, sorted
  by time difference ascending and, for equal differences, by combined balance percent
  descending; it returns no entries when every pairwise difference exceeds 30 minutes.
\<close>

theorem creation_patterns_within_30_minutes:
  assumes "list_all (\<lambda>h. address h \<noteq> None) holders"
  shows "\<exists>ps. analyze_creation_patterns api holders = Inr ps
           \<and> sorted_wrt (\<lambda>x y. time_difference x < time_difference y
                             \<or> (time_difference x = time_difference y
                                \<and> combined_balance y \<le> combined_balance x)) ps
           \<and> (\<forall>p. p \<in> set ps \<longleftrightarrow> (\<exists>i j. close_pair_at api holders i j p))
           \<and> ((\<forall>i j a1 a2 t1 t2.
                  i < j \<and> j < length holders
                  \<and> address (holders ! i) = Some a1 \<and> address (holders ! j) = Some a2
                  \<and> api a1 = Some t1 \<and> api a2 = Some t2
                  \<longrightarrow> 30 < (of_int \<bar>t1 - t2\<bar> / 60 :: rat))
                \<longrightarrow> ps = [])"
proof -
  from fetch_timestamps_result [OF assms, of api Map.empty] obtain ts where
    fetched: "fetch_timestamps api holders Map.empty = Inr ts" and
    ts: "\<forall>a. ts a = (if (\<exists>h \<in> set holders. address h = Some a) \<and> api a \<noteq> None
                      then api a else None)"
    by auto
  define raw where "raw = concat (map (\<lambda>(x, y). pair_entries ts x y) (pairs_in_order holders))"
  define ps where "ps = sort_key creation_key raw"
  have result: "analyze_creation_patterns api holders = Inr ps"
    using fetched compare_timestamps_entries [OF assms, of ts]
    by (simp add: analyze_creation_patterns_def and_then_def ps_def raw_def)
  have "sorted (map creation_key ps)"
    by (simp add: ps_def)
  then have "sorted_wrt (\<lambda>x y. creation_key x \<le> creation_key y) ps"
    by (simp add: sorted_map)
  then have ordered: "sorted_wrt (\<lambda>x y. time_difference x < time_difference y
                             \<or> (time_difference x = time_difference y
                                \<and> combined_balance y \<le> combined_balance x)) ps"
    by (rule sorted_wrt_mono_rel [rotated]) (auto simp: creation_key_def less_eq_prod_def)
  have member: "p \<in> set ps \<longleftrightarrow> (\<exists>i j. close_pair_at api holders i j p)" for p
  proof -
    have "p \<in> set ps \<longleftrightarrow> (\<exists>x y. (x, y) \<in> set (pairs_in_order holders) \<and> p \<in> set (pair_entries ts x y))"
      by (auto simp: ps_def raw_def)
    also have "\<dots> \<longleftrightarrow> (\<exists>i j. i < j \<and> j < length holders
                          \<and> p \<in> set (pair_entries ts (holders ! i) (holders ! j)))"
      by (auto simp: set_pairs_in_order)
    also have "\<dots> \<longleftrightarrow> (\<exists>i j. close_pair_at api holders i j p)"
    proof -
      have "close_pair_at api holders i j p \<longleftrightarrow>
              i < j \<and> j < length holders
              \<and> p \<in> set (pair_entries ts (holders ! i) (holders ! j))" for i j
      proof (cases "i < j \<and> j < length holders")
        case True
        then have "holders ! i \<in> set holders" "holders ! j \<in> set holders" by simp_all
        from pair_entries_member [OF this ts, of p] True show ?thesis
          by (simp add: close_pair_at_def)
      next
        case False
        then show ?thesis by (auto simp: close_pair_at_def)
      qed
      then show ?thesis by simp
    qed
    finally show ?thesis .
  qed
  have none: "ps = []"
    if far: "\<forall>i j a1 a2 t1 t2.
                  i < j \<and> j < length holders
                  \<and> address (holders ! i) = Some a1 \<and> address (holders ! j) = Some a2
                  \<and> api a1 = Some t1 \<and> api a2 = Some t2
                  \<longrightarrow> 30 < (of_int \<bar>t1 - t2\<bar> / 60 :: rat)"
  proof (rule ccontr)
    assume "ps \<noteq> []"
    then obtain p where "p \<in> set ps" by (cases ps) auto
    with member obtain i j where "close_pair_at api holders i j p" by blast
    then obtain a1 a2 t1 t2 where
      "i < j" "j < length holders" "address (holders ! i) = Some a1"
      "address (holders ! j) = Some a2" "api a1 = Some t1" "api a2 = Some t2"
      "of_int \<bar>t1 - t2\<bar> / 60 \<le> (30 :: rat)"
      unfolding close_pair_at_def by blast
    with far [rule_format, of i j a1 a2 t1 t2] show False by simp
  qed
  show ?thesis
  proof (intro exI conjI)
    show "analyze_creation_patterns api holders = Inr ps" by (fact result)
    show "sorted_wrt (\<lambda>x y. time_difference x < time_difference y
                             \<or> (time_difference x = time_difference y
                                \<and> combined_balance y \<le> combined_balance x)) ps"
      by (fact ordered)
    show "\<forall>p. p \<in> set ps \<longleftrightarrow> (\<exists>i j. close_pair_at api holders i j p)"
      using member by simp
    show "(\<forall>i j a1 a2 t1 t2.
                  i < j \<and> j < length holders
                  \<and> address (holders ! i) = Some a1 \<and> address (holders ! j) = Some a2
                  \<and> api a1 = Some t1 \<and> api a2 = Some t2
                  \<longrightarrow> 30 < (of_int \<bar>t1 - t2\<bar> / 60 :: rat))
                \<longrightarrow> ps = []"
      using none by (intro impI)
  qed
qed

theorem creation_patterns_within_30_minutes_witness:
  "list_all (\<lambda>h. address h \<noteq> None) creation_batch
   \<and> analyze_creation_patterns creation_api creation_batch
       = Inr [Creation [''0xB'', ''0xC''] 10 10 1600 2200,
              Creation [''0xA'', ''0xB''] 10 8 1000 1600,
              Creation [''0xA'', ''0xC''] 20 12 1000 2200]
   \<and> list_all (\<lambda>h. address h \<noteq> None) far_batch
   \<and> analyze_creation_patterns creation_api far_batch = Inr []"
proof -
  have batch: "list_all (\<lambda>h. address h \<noteq> None) creation_batch"
    by (simp add: creation_batch_def example_holder_def)
  have far: "list_all (\<lambda>h. address h \<noteq> None) far_batch"
    by (simp add: far_batch_def example_holder_def)
  have apart: "\<forall>i j a1 a2 t1 t2.
                  i < j \<and> j < length far_batch
                  \<and> address (far_batch ! i) = Some a1 \<and> address (far_batch ! j) = Some a2
                  \<and> creation_api a1 = Some t1 \<and> creation_api a2 = Some t2
                  \<longrightarrow> 30 < (of_int \<bar>t1 - t2\<bar> / 60 :: rat)"
  proof (intro allI impI)
    fix i j a1 a2 t1 t2
    assume h: "i < j \<and> j < length far_batch
                  \<and> address (far_batch ! i) = Some a1 \<and> address (far_batch ! j) = Some a2
                  \<and> creation_api a1 = Some t1 \<and> creation_api a2 = Some t2"
    then have "j = 1" "i = 0" by (simp_all add: far_batch_def)
    with h show "30 < (of_int \<bar>t1 - t2\<bar> / 60 :: rat)"
      by (auto simp: far_batch_def example_holder_def creation_api_def)
  qed
  from creation_patterns_within_30_minutes [OF far, of creation_api] apart
  have none: "analyze_creation_patterns creation_api far_batch = Inr []"
    by blast
  from creation_patterns_within_30_minutes [OF batch, of creation_api]
  have "analyze_creation_patterns creation_api creation_batch
       = Inr [Creation [''0xB'', ''0xC''] 10 10 1600 2200,
              Creation [''0xA'', ''0xB''] 10 8 1000 1600,
              Creation [''0xA'', ''0xC''] 20 12 1000 2200]"
    by (simp add: analyze_creation_patterns_def creation_batch_def example_holder_def
          creation_api_def and_then_def getitem_def creation_pair_def creation_key_def Let_def)
  with batch far none show ?thesis by simp
qed

subsection \<open>The entry point\<close>

lemma grow_cluster_returns:
  assumes "list_all (\<lambda>h. address h \<noteq> None) rest"
  shows "\<exists>r. grow_cluster w wallet1 rest st = Inr r"
  using assms
proof (induction rest arbitrary: st)
  case Nil
  then show ?case by (cases st) simp
next
  case (Cons wallet2 rest)
  then obtain a where "address wallet2 = Some a" by auto
  with Cons show ?case
    by (cases st) (simp add: and_then_def getitem_def)
qed

lemma cluster_loop_returns:
  assumes "list_all (\<lambda>h. address h \<noteq> None) hs"
  shows "\<exists>r. cluster_loop w hs st = Inr r"
  using assms
proof (induction hs arbitrary: st)
  case Nil
  then show ?case by (cases st) simp
next
  case (Cons wallet1 rest)
  then obtain a where a: "address wallet1 = Some a" by auto
  from Cons.prems have rest: "list_all (\<lambda>h. address h \<noteq> None) rest" by simp
  obtain clusters used where st: "st = (clusters, used)" by (cases st)
  from grow_cluster_returns [OF rest] obtain cur used' where
    g: "grow_cluster w wallet1 rest ([a], insert a used) = Inr (cur, used')"
    by (metis surj_pair)
  from a g st Cons.IH [OF rest] show ?case
    by (simp add: and_then_def getitem_def)
qed

lemma find_clusters_returns:
  assumes "list_all (\<lambda>h. address h \<noteq> None) hs"
  shows "\<exists>clusters. find_clusters hs = Inr clusters"
proof -
  from cluster_loop_returns [OF assms] obtain r where
    "cluster_loop calculate_connection_weight hs ([], {}) = Inr r" by blast
  then show ?thesis
    by (simp add: find_clusters_def find_clusters_with_def and_then_def)
qed

lemma user_holders_of_result:
  "user_holders_of hs =
     (if list_all (\<lambda>h. address_type h \<noteq> None) hs then Inr (filter is_user hs)
      else Inl KeyError)"
proof (induction hs)
  case Nil
  then show ?case by simp
next
  case (Cons h hs)
  show ?case
  proof (cases "address_type h")
    case None
    then show ?thesis by (simp add: and_then_def getitem_def)
  next
    case (Some t)
    then have "is_user h \<longleftrightarrow> t \<noteq> ''Contract'' \<and> t \<noteq> ''Developer''"
      by (simp add: is_user_def)
    with Some Cons show ?thesis
      by (simp add: and_then_def getitem_def)
  qed
qed

lemma fetch_timestamps_raises:
  assumes "\<not> list_all (\<lambda>h. address h \<noteq> None) hs"
  shows "fetch_timestamps api hs m = Inl KeyError"
  using assms
proof (induction hs arbitrary: m)
  case Nil
  then show ?case by simp
next
  case (Cons h hs)
  show ?case
  proof (cases "address h")
    case None
    then show ?thesis by (simp add: and_then_def getitem_def)
  next
    case (Some a)
    with Cons.prems have "\<not> list_all (\<lambda>h. address h \<noteq> None) hs" by simp
    from Cons.IH [OF this] Some show ?thesis
      by (simp add: and_then_def getitem_def)
  qed
qed

lemma analyze_creation_patterns_raises:
  assumes "\<not> list_all (\<lambda>h. address h \<noteq> None) hs"
  shows "analyze_creation_patterns api hs = Inl KeyError"
  using fetch_timestamps_raises [OF assms]
  by (simp add: analyze_creation_patterns_def and_then_def)

lemma analyze_creation_patterns_returns:
  assumes "list_all (\<lambda>h. address h \<noteq> None) hs"
  shows "\<exists>ps. analyze_creation_patterns api hs = Inr ps"
proof -
  from fetch_timestamps_result [OF assms, of api Map.empty] obtain ts where
    "fetch_timestamps api hs Map.empty = Inr ts" by blast
  with compare_timestamps_entries [OF assms, of ts] show ?thesis
    by (simp add: analyze_creation_patterns_def and_then_def)
qed

lemma connections_body_raises:
  assumes "list_ex lacks_key hs"
  shows "connections_body api recent hs = Inl KeyError"
proof (cases "list_all (\<lambda>h. address_type h \<noteq> None) hs")
  case False
  then show ?thesis
    by (simp add: connections_body_def user_holders_of_result and_then_def)
next
  case True
  with assms have "\<not> list_all (\<lambda>h. address h \<noteq> None) (filter is_user hs)"
    by (auto simp: list_ex_iff list_all_iff lacks_key_def)
  from analyze_creation_patterns_raises [OF this] True show ?thesis
    by (simp add: connections_body_def user_holders_of_result and_then_def)
qed

lemma connections_body_returns:
  assumes "\<not> list_ex lacks_key hs"
  shows "\<exists>clusters creation.
           find_clusters (filter is_user hs) = Inr clusters
           \<and> analyze_creation_patterns api (filter is_user hs) = Inr creation
           \<and> connections_body api recent hs =
               Inr (Connections (calculate_risk_score clusters (int (length (filter is_user hs))))
                      clusters creation (analyze_transaction_patterns (filter is_user hs) @ recent))"
proof -
  from assms have types: "list_all (\<lambda>h. address_type h \<noteq> None) hs"
    and addrs: "list_all (\<lambda>h. address h \<noteq> None) (filter is_user hs)"
    by (auto simp: list_ex_iff list_all_iff lacks_key_def)
  from find_clusters_returns [OF addrs] obtain clusters where
    c: "find_clusters (filter is_user hs) = Inr clusters" by blast
  from analyze_creation_patterns_returns [OF addrs] obtain creation where
    p: "analyze_creation_patterns api (filter is_user hs) = Inr creation" by blast
  from types addrs c p have "connections_body api recent hs =
               Inr (Connections (calculate_risk_score clusters (int (length (filter is_user hs))))
                      clusters creation (analyze_transaction_patterns (filter is_user hs) @ recent))"
    by (simp add: connections_body_def user_holders_of_result and_then_def
          analyze_recent_transactions_def Let_def)
  with c p show ?thesis by blast
qed

text \<open>
  C10. \<open>analyze_wallet_connections\<close> never hands an exception to its caller: whenever its
  body raises it returns the empty dict, otherwise the structure
  \<open>{risk_score, clusters, creation_patterns, transaction_patterns}\<close> the body built. The
  body raises exactly when a holder lacks \<open>'address_type'\<close> or a holder that passes the
  filter lacks \<open>'address'\<close>.
\<close>

theorem analyze_wallet_connections_catches:
  "(connections_body api recent hs = Inl e \<longrightarrow>
      analyze_wallet_connections api recent hs = Empty_Dict)
   \<and> (connections_body api recent hs = Inr result \<longrightarrow>
        analyze_wallet_connections api recent hs = result
        \<and> (\<exists>risk clusters creation transaction.
              result = Connections risk clusters creation transaction))
   \<and> ((\<exists>e'. connections_body api recent hs = Inl e') \<longleftrightarrow> list_ex lacks_key hs)"
proof (cases "list_ex lacks_key hs")
  case True
  from connections_body_raises [OF True, of api recent] True show ?thesis
    by (simp add: analyze_wallet_connections_def)
next
  case False
  from connections_body_returns [OF False, of api recent] False show ?thesis
    by (auto simp: analyze_wallet_connections_def)
qed

theorem analyze_wallet_connections_catches_witness:
  "list_ex lacks_key untyped_batch
   \<and> connections_body creation_api [] untyped_batch = Inl KeyError
   \<and> analyze_wallet_connections creation_api [] untyped_batch = Empty_Dict
   \<and> \<not> list_ex lacks_key mixed_batch
   \<and> analyze_wallet_connections creation_api [] mixed_batch
       = Connections (calculate_risk_score [[''0xA'', ''0xB'']] 3) [[''0xA'', ''0xB'']]
           [Creation [''0xA'', ''0xB''] 10 10 1000 1600] []"
proof -
  have bad: "list_ex lacks_key untyped_batch"
    by (simp add: untyped_batch_def example_holder_def lacks_key_def)
  have good: "\<not> list_ex lacks_key mixed_batch"
    by (simp add: mixed_batch_def example_holder_def lacks_key_def is_user_def)
  have raised: "connections_body creation_api [] untyped_batch = Inl KeyError"
    by (simp add: connections_body_def untyped_batch_def example_holder_def
          and_then_def getitem_def)
  from analyze_wallet_connections_catches
         [of creation_api "[]" untyped_batch KeyError Empty_Dict] raised
  have caught: "analyze_wallet_connections creation_api [] untyped_batch = Empty_Dict"
    by blast
  from analyze_wallet_connections_catches
         [of creation_api "[]" mixed_batch KeyError Empty_Dict]
  have "analyze_wallet_connections creation_api [] mixed_batch
       = Connections (calculate_risk_score [[''0xA'', ''0xB'']] 3) [[''0xA'', ''0xB'']]
           [Creation [''0xA'', ''0xB''] 10 10 1000 1600] []"
    by (simp add: analyze_wallet_connections_def connections_body_def mixed_batch_def
          example_holder_def creation_api_def analyze_creation_patterns_def
          analyze_transaction_patterns_def transaction_pair_def
          analyze_recent_transactions_def find_clusters_def find_clusters_with_def
          sorted_by_len_desc_def calculate_connection_weight_def calculate_tx_similarity_def
          tx_similarity_body_def has_chains_def tx_ratio_def clean_tx_count_def
          creation_pair_def creation_key_def and_then_def getitem_def Let_def)
  with bad good raised caught show ?thesis by simp
qed


section \<open>Properties of the task coordinator\<close>

text \<open>
  Every step (\<open>add_task\<close>, \<open>start_task\<close>, \<open>finish_task\<close>) is taken as a whole; what another
  coroutine does at one of its \<open>await\<close>s is a step before or after it.
\<close>

lemmas admission_defs = add_task_def admit_new_def check_and_deduct_def get_user_def
  use_credit_def credits_required_def

lemmas worker_defs = process_next_def start_task_def finish_task_def refund_def cleanup_def
  deliver_def add_credits_def credits_required_def

lemma admitted_quick_state:
  "admitted_quick =
     \<lparr>queue = [\<lparr>token_address = ''0xT'', chat_id = 100, user_id = 1, analysis_type = ''quick''\<rparr>],
      current_task = None, analysis_results = Map.empty,
      active_tokens = [''0xT'' \<mapsto> \<lparr>users = {1}, results_sent = {}, credits_deducted = {1},
                                  current_type = ''quick'', chat_ids = [1 \<mapsto> 100]\<rparr>],
      analysis_cache = Map.empty, db = [1 \<mapsto> 0, 2 \<mapsto> 10, 3 \<mapsto> 0]\<rparr>"
  by (simp add: admitted_quick_def three_users_def initial_queue_def admission_defs fun_upd_twist)

lemma admitted_deep_state:
  "admitted_deep =
     \<lparr>queue = [\<lparr>token_address = ''0xT'', chat_id = 100, user_id = 1, analysis_type = ''quick''\<rparr>,
               \<lparr>token_address = ''0xT'', chat_id = 200, user_id = 2, analysis_type = ''deep''\<rparr>],
      current_task = None, analysis_results = Map.empty,
      active_tokens = [''0xT'' \<mapsto> \<lparr>users = {2}, results_sent = {}, credits_deducted = {2},
                                  current_type = ''deep'', chat_ids = [2 \<mapsto> 200]\<rparr>],
      analysis_cache = Map.empty, db = [1 \<mapsto> 0, 2 \<mapsto> 0, 3 \<mapsto> 0]\<rparr>"
  by (simp add: admitted_deep_def admitted_quick_state admission_defs fun_upd_twist)

subsection \<open>Admission\<close>

text \<open>
  C3 as stated (a submission with a balance below the cost returns false and changes
  nothing) fails: user 3 has balance 0, submits the quick analysis of \<open>0xT\<close> that is in
  flight for user 1, is admitted and is attached to the in-flight record.
\<close>

theorem insufficient_balance_attached:
  "balance (db admitted_quick) 3 < credits_required ''quick''
   \<and> fst (add_task admitted_quick ''0xT'' 300 3 ''quick'') = True
   \<and> users (the (active_tokens admitted_quick ''0xT'')) = {1}
   \<and> users (the (active_tokens (snd (add_task admitted_quick ''0xT'' 300 3 ''quick'')) ''0xT''))
       = {3, 1}"
  by (simp add: admitted_quick_state balance_def admission_defs)

text \<open>
  C3, amended. For every submission whose requester's balance is below the kind's cost
  the ledger is not debited and the queue and the cache are unchanged; unless the token
  has an in-flight record of the same kind (then the requester is attached), \<open>add_task\<close>
  returns false and changes nothing at all.
\<close>

theorem insufficient_balance_rejected:
  assumes "balance (db st) uid < credits_required atype"
  shows "db (snd (add_task st token chat uid atype)) = db st
       \<and> queue (snd (add_task st token chat uid atype)) = queue st
       \<and> analysis_cache (snd (add_task st token chat uid atype)) = analysis_cache st
       \<and> (\<not> (\<exists>r. active_tokens st token = Some r \<and> current_type r = atype)
            \<longrightarrow> add_task st token chat uid atype = (False, st))"
  using assms
  by (auto simp: balance_def add_task_def admit_new_def check_and_deduct_def get_user_def
           split: option.splits)

theorem insufficient_balance_rejected_witness:
  "balance (db admitted_quick) 3 < credits_required ''deep''
   \<and> \<not> (\<exists>r. active_tokens admitted_quick ''0xT'' = Some r \<and> current_type r = ''deep'')
   \<and> add_task admitted_quick ''0xT'' 300 3 ''deep'' = (False, admitted_quick)"
proof -
  have low: "balance (db admitted_quick) 3 < credits_required ''deep''"
    by (simp add: admitted_quick_state balance_def get_user_def credits_required_def)
  have other: "\<not> (\<exists>r. active_tokens admitted_quick ''0xT'' = Some r \<and> current_type r = ''deep'')"
    by (simp add: admitted_quick_state)
  from insufficient_balance_rejected [OF low, of "''0xT''" 300] low other
  show ?thesis by blast
qed

text \<open>
  C2 as stated (the second requester of an in-flight \<open>(T, kind)\<close> is debited at its own
  admission) fails: user 2 submits the quick analysis of \<open>0xT\<close> that is in flight for
  user 1, is admitted, and keeps its 10 credits.
\<close>

theorem attached_requester_not_debited:
  "fst (add_task admitted_quick ''0xT'' 200 2 ''quick'') = True
   \<and> credits_required ''quick'' = 1
   \<and> db admitted_quick 2 = Some 10
   \<and> db (snd (add_task admitted_quick ''0xT'' 200 2 ''quick'')) 2 = Some 10"
  by (simp add: admitted_quick_state admission_defs)

text \<open>
  C2, amended. A requester that submits \<open>(T, kind)\<close> while a record of the same kind is in
  flight for \<open>T\<close> is admitted without a debit and without a new task, and is attached to
  the record unless its result was already sent; a requester admitted for a token with
  no in-flight record is debited the kind's cost exactly once.
\<close>

theorem admission_debits:
  "(active_tokens st token = Some r \<and> current_type r = atype \<longrightarrow>
      fst (add_task st token chat uid atype) = True
      \<and> db (snd (add_task st token chat uid atype)) = db st
      \<and> queue (snd (add_task st token chat uid atype)) = queue st
      \<and> (uid \<notin> results_sent r \<longrightarrow>
           (\<exists>r'. active_tokens (snd (add_task st token chat uid atype)) token = Some r'
                \<and> users r' = insert uid (users r)
                \<and> credits_deducted r' = credits_deducted r)))
   \<and> (active_tokens st token = None \<and> fst (add_task st token chat uid atype) = True \<longrightarrow>
        (\<exists>c. db st uid = Some c \<and> credits_required atype \<le> c
            \<and> db (snd (add_task st token chat uid atype))
                = (db st)(uid \<mapsto> c - credits_required atype)))"
  by (auto simp: add_task_def admit_new_def check_and_deduct_def get_user_def use_credit_def
           split: option.splits if_splits prod.splits)

theorem admission_debits_witness:
  "active_tokens admitted_quick ''0xT''
     = Some \<lparr>users = {1}, results_sent = {}, credits_deducted = {1},
             current_type = ''quick'', chat_ids = [1 \<mapsto> 100]\<rparr>
   \<and> fst (add_task admitted_quick ''0xT'' 200 2 ''quick'') = True
   \<and> db (snd (add_task admitted_quick ''0xT'' 200 2 ''quick'')) = db admitted_quick
   \<and> queue (snd (add_task admitted_quick ''0xT'' 200 2 ''quick'')) = queue admitted_quick
   \<and> active_tokens (initial_queue three_users) ''0xT'' = None
   \<and> fst (add_task (initial_queue three_users) ''0xT'' 100 1 ''quick'') = True
   \<and> db (snd (add_task (initial_queue three_users) ''0xT'' 100 1 ''quick''))
       = (db (initial_queue three_users))(1 \<mapsto> 1 - credits_required ''quick'')"
proof -
  let ?r = "\<lparr>users = {1}, results_sent = {}, credits_deducted = {1},
             current_type = ''quick'', chat_ids = [1 \<mapsto> 100]\<rparr>"
  have rec: "active_tokens admitted_quick ''0xT'' = Some ?r" "current_type ?r = ''quick''"
    by (simp_all add: admitted_quick_state)
  have fresh: "active_tokens (initial_queue three_users) ''0xT'' = None"
    "fst (add_task (initial_queue three_users) ''0xT'' 100 1 ''quick'') = True"
    "db (initial_queue three_users) 1 = Some 1"
    by (simp_all add: initial_queue_def three_users_def admission_defs)
  from admission_debits [of admitted_quick "''0xT''" ?r "''quick''" 200 2] rec
  have attach: "fst (add_task admitted_quick ''0xT'' 200 2 ''quick'') = True
     \<and> db (snd (add_task admitted_quick ''0xT'' 200 2 ''quick'')) = db admitted_quick
     \<and> queue (snd (add_task admitted_quick ''0xT'' 200 2 ''quick'')) = queue admitted_quick"
    by blast
  from admission_debits [of "initial_queue three_users" "''0xT''" ?r "''quick''" 100 1] fresh
  have "db (snd (add_task (initial_queue three_users) ''0xT'' 100 1 ''quick''))
       = (db (initial_queue three_users))(1 \<mapsto> 1 - credits_required ''quick'')"
    by auto
  with rec fresh attach show ?thesis by simp
qed

text \<open>
  C7 (a request of a different kind leaves the existing in-flight record unchanged) does
  not hold of the code: user 2 submits the deep analysis of \<open>0xT\<close> while the quick one is in
  flight for user 1. The request is admitted and queued, but the record of \<open>0xT\<close> is
  replaced: user 1, its chat and its entry in \<open>credits_deducted\<close> are gone. User 2 has been
  charged twice (10 credits), once by each copy of the deduction block.
\<close>

theorem different_kind_replaces_record:
  "fst (add_task admitted_quick ''0xT'' 200 2 ''deep'') = True
   \<and> active_tokens admitted_quick ''0xT''
       = Some \<lparr>users = {1}, results_sent = {}, credits_deducted = {1},
               current_type = ''quick'', chat_ids = [1 \<mapsto> 100]\<rparr>
   \<and> active_tokens (snd (add_task admitted_quick ''0xT'' 200 2 ''deep'')) ''0xT''
       = Some \<lparr>users = {2}, results_sent = {}, credits_deducted = {2},
               current_type = ''deep'', chat_ids = [2 \<mapsto> 200]\<rparr>
   \<and> map user_id (queue (snd (add_task admitted_quick ''0xT'' 200 2 ''deep''))) = [1, 2]
   \<and> db admitted_quick 2 = Some 10
   \<and> db (snd (add_task admitted_quick ''0xT'' 200 2 ''deep'')) 2 = Some 0"
proof -
  have admitted: "fst (add_task admitted_quick ''0xT'' 200 2 ''deep'') = True"
    by (simp add: admitted_quick_state admission_defs)
  have after: "snd (add_task admitted_quick ''0xT'' 200 2 ''deep'') = admitted_deep"
    by (simp add: admitted_deep_def)
  show ?thesis
    unfolding admitted after
    by (simp add: admitted_deep_state admitted_quick_state)
qed

subsection \<open>Failure of a task\<close>

text \<open>
  When the record of the token was created by the admission of the failing task, the
  requester is credited back the cost once, the entry leaves \<open>credits_deducted\<close> with the
  record, and running the failure path again refunds nothing.
\<close>

lemma failed_task_refunds_once:
  assumes "active_tokens st (token_address t) = Some r"
    and "user_id t \<in> credits_deducted r"
    and "db st (user_id t) = Some c"
  shows "db (finish_task t (Failed e) st)
           = (db st)(user_id t \<mapsto> c + credits_required (analysis_type t))
       \<and> active_tokens (finish_task t (Failed e) st) (token_address t) = None
       \<and> db (finish_task t (Failed e') (finish_task t (Failed e) st))
           = db (finish_task t (Failed e) st)"
  using assms
  by (simp add: finish_task_def refund_def cleanup_def add_credits_def credits_required_def)

lemma failed_task_refunds_once_example:
  "db (initial_queue three_users) 1 = Some 1
   \<and> db admitted_quick 1 = Some 0
   \<and> db (process_next (Failed ''timeout'') admitted_quick) 1 = Some 1
   \<and> active_tokens (process_next (Failed ''timeout'') admitted_quick) ''0xT'' = None"
  by (simp add: admitted_quick_state initial_queue_def three_users_def worker_defs)

text \<open>
  The same happens when user 2's request arrives while the worker is computing user 1's
  task: the record the failure handler reads is user 2's, nobody is refunded, and user
  2's own task later runs on a record with an empty \<open>credits_deducted\<close>.
\<close>

lemma refund_skipped_mid_flight:
  "start_task admitted_quick = Some (quick_task, quick_started)
   \<and> fst (add_task quick_started ''0xT'' 200 2 ''deep'') = True
   \<and> map_option credits_deducted (active_tokens deep_mid_flight ''0xT'') = Some {2}
   \<and> db deep_mid_flight 1 = Some 0
   \<and> db deep_mid_flight 2 = Some 0
   \<and> db (finish_task quick_task (Failed ''timeout'') deep_mid_flight) 1 = Some 0
   \<and> db (finish_task quick_task (Failed ''timeout'') deep_mid_flight) 2 = Some 0
   \<and> active_tokens (finish_task quick_task (Failed ''timeout'') deep_mid_flight) ''0xT'' = None
   \<and> db (process_next (Failed ''timeout'')
           (finish_task quick_task (Failed ''timeout'') deep_mid_flight)) 2 = Some 0"
proof -
  have started: "start_task admitted_quick = Some (quick_task, quick_started)"
    by (simp add: start_task_def quick_task_def quick_started_def admitted_quick_state)
  have state: "deep_mid_flight =
     \<lparr>queue = [\<lparr>token_address = ''0xT'', chat_id = 200, user_id = 2, analysis_type = ''deep''\<rparr>],
      current_task = Some quick_task, analysis_results = Map.empty,
      active_tokens = [''0xT'' \<mapsto> \<lparr>users = {2}, results_sent = {}, credits_deducted = {2},
                                  current_type = ''deep'', chat_ids = [2 \<mapsto> 200]\<rparr>],
      analysis_cache = Map.empty, db = [1 \<mapsto> 0, 2 \<mapsto> 0, 3 \<mapsto> 0]\<rparr>"
    by (simp add: deep_mid_flight_def quick_started_def admitted_quick_state admission_defs
          fun_upd_twist)
  have admitted: "fst (add_task quick_started ''0xT'' 200 2 ''deep'') = True"
    by (simp add: quick_started_def admitted_quick_state admission_defs)
  show ?thesis
    unfolding started admitted
    by (simp add: state quick_task_def worker_defs)
qed

text \<open>
  C1 (on failure every requester in the record's \<open>credits_deducted\<close> is credited back and
  refunds equal debits) does not hold of the code. After the two admissions above the
  worker takes user 1's quick task; the record of \<open>0xT\<close> is the one user 2's admission
  stored, with \<open>credits_deducted = {2}\<close>. The task fails: the handler looks for user 1 in
  that set and refunds nobody. User 1 (debited 1) and user 2 (debited 10, member of
  \<open>credits_deducted\<close>) keep a balance of 0, also after user 2's own task has failed.
\<close>

theorem refund_skipped_after_overwrite:
  "db (initial_queue three_users) 1 = Some 1
   \<and> db (initial_queue three_users) 2 = Some 10
   \<and> db admitted_deep 1 = Some 0
   \<and> db admitted_deep 2 = Some 0
   \<and> map_option (user_id \<circ> fst) (start_task admitted_deep) = Some 1
   \<and> map_option credits_deducted (active_tokens admitted_deep ''0xT'') = Some {2}
   \<and> db (process_next (Failed ''timeout'') admitted_deep) 1 = Some 0
   \<and> db (process_next (Failed ''timeout'') admitted_deep) 2 = Some 0
   \<and> active_tokens (process_next (Failed ''timeout'') admitted_deep) ''0xT'' = None
   \<and> db (process_next (Failed ''timeout'') (process_next (Failed ''timeout'') admitted_deep)) 2
       = Some 0"
  by (simp add: admitted_deep_state initial_queue_def three_users_def worker_defs)


end
